theory Spec2Isabelle
  imports Main "HOL-Library.AList"
begin

section \<open>URL builder (\<open>Api.buildUrl\<close>, src/core.ts)\<close>

text \<open>
  A search-parameter value has the TypeScript type
  \<open>string | number | boolean | undefined\<close>; the code also tests for \<open>null\<close>.
  Numbers are modelled as integers (the decimal rendering of \<open>String(n)\<close> is exact
  for integers below \<open>10^21\<close> in absolute value).
\<close>

datatype param_value = PUndefined | PNull | PStr string | PNum int | PBool bool

fun digits :: "nat \<Rightarrow> string" where
  "digits n = (if n < 10 then [char_of (48 + n)] else digits (n div 10) @ [char_of (48 + n mod 10)])"

declare digits.simps [simp del]

text \<open>\<open>String(value)\<close> on the values that reach it.\<close>

fun String_of :: "param_value \<Rightarrow> string" where
  "String_of PUndefined = ''undefined''"
| "String_of PNull = ''null''"
| "String_of (PStr s) = s"
| "String_of (PNum i) = (if i < 0 then ''-'' @ digits (nat (- i)) else digits (nat i))"
| "String_of (PBool b) = (if b then ''true'' else ''false'')"

text \<open>
  \<open>String.prototype.trim\<close> removes white space and line terminators at both
  ends. Strings are byte strings in UTF-8 (the encoding in which
  \<open>URLSearchParams\<close> serialises them), so the code points concerned are these
  byte sequences: TAB, LF, VT, FF, CR, SPACE, U+00A0, U+1680, U+2000 to U+200A,
  U+2028, U+2029, U+202F, U+205F, U+3000 and U+FEFF.
\<close>

definition ws_codes :: "string list" where
  "ws_codes =
     [[CHR 0x09], [CHR 0x0A], [CHR 0x0B], [CHR 0x0C], [CHR 0x0D], [CHR 0x20],
      [CHR 0xC2, CHR 0xA0],
      [CHR 0xE1, CHR 0x9A, CHR 0x80],
      [CHR 0xE2, CHR 0x80, CHR 0x80], [CHR 0xE2, CHR 0x80, CHR 0x81],
      [CHR 0xE2, CHR 0x80, CHR 0x82], [CHR 0xE2, CHR 0x80, CHR 0x83],
      [CHR 0xE2, CHR 0x80, CHR 0x84], [CHR 0xE2, CHR 0x80, CHR 0x85],
      [CHR 0xE2, CHR 0x80, CHR 0x86], [CHR 0xE2, CHR 0x80, CHR 0x87],
      [CHR 0xE2, CHR 0x80, CHR 0x88], [CHR 0xE2, CHR 0x80, CHR 0x89],
      [CHR 0xE2, CHR 0x80, CHR 0x8A],
      [CHR 0xE2, CHR 0x80, CHR 0xA8], [CHR 0xE2, CHR 0x80, CHR 0xA9],
      [CHR 0xE2, CHR 0x80, CHR 0xAF],
      [CHR 0xE2, CHR 0x81, CHR 0x9F],
      [CHR 0xE3, CHR 0x80, CHR 0x80],
      [CHR 0xEF, CHR 0xBB, CHR 0xBF]]"

text \<open>The length of the code of the given list that the string starts with, or 0.\<close>

definition code_prefix :: "string list \<Rightarrow> string \<Rightarrow> nat" where
  "code_prefix codes s =
     (case find (\<lambda>w. take (length w) s = w) codes of None \<Rightarrow> 0 | Some w \<Rightarrow> length w)"

fun strip :: "string list \<Rightarrow> string \<Rightarrow> string" where
  "strip codes [] = []"
| "strip codes (c # cs) =
     (if code_prefix codes (c # cs) = 0 then c # cs
      else strip codes (drop (code_prefix codes (c # cs) - 1) cs))"

definition trim :: "string \<Rightarrow> string" where
  "trim s = rev (strip (map rev ws_codes) (rev (strip ws_codes s)))"

text \<open>
  \<open>new URLSearchParams(record).toString()\<close>: the entries in the record's own
  order, each name and value in the form-urlencoded byte serialisation, joined by
  \<open>&\<close>.
\<close>

definition hex_digit :: "nat \<Rightarrow> char" where
  "hex_digit n = (if n < 10 then char_of (48 + n) else char_of (55 + n))"

definition form_safe :: "char \<Rightarrow> bool" where
  "form_safe c = (let n = of_char c :: nat in
     (48 \<le> n \<and> n \<le> 57) \<or> (65 \<le> n \<and> n \<le> 90) \<or> (97 \<le> n \<and> n \<le> 122)
     \<or> c = CHR ''*'' \<or> c = CHR ''-'' \<or> c = CHR ''.'' \<or> c = CHR ''_'')"

definition form_encode_char :: "char \<Rightarrow> string" where
  "form_encode_char c =
     (if c = CHR '' '' then ''+''
      else if form_safe c then [c]
      else [CHR ''%'', hex_digit (of_char c div 16), hex_digit (of_char c mod 16)])"

definition form_encode :: "string \<Rightarrow> string" where
  "form_encode s = concat (map form_encode_char s)"

fun join_amp :: "string list \<Rightarrow> string" where
  "join_amp [] = []"
| "join_amp [x] = x"
| "join_amp (x # y # ys) = x @ ''&'' @ join_amp (y # ys)"

definition URLSearchParams_toString :: "(string \<times> string) list \<Rightarrow> string" where
  "URLSearchParams_toString ps = join_amp (map (\<lambda>(k, v). form_encode k @ ''='' @ form_encode v) ps)"

text \<open>
  The test of the \<open>forEach\<close> body: the value is kept when it is none of
  \<open>undefined\<close>, \<open>null\<close> and the empty string.
\<close>

definition keeps :: "param_value \<Rightarrow> bool" where
  "keeps v = (v \<noteq> PUndefined \<and> v \<noteq> PNull \<and> v \<noteq> PStr [])"

text \<open>
  One round of the \<open>forEach\<close> over \<open>Object.entries(searchParams)\<close>:
  \<open>filteredParams[key] = String(value)\<close> overwrites an existing key in place and
  appends a new one.
\<close>

definition filter_step :: "string \<times> param_value \<Rightarrow> (string \<times> string) list \<Rightarrow> (string \<times> string) list" where
  "filter_step kv acc = (if keeps (snd kv) then AList.update (fst kv) (String_of (snd kv)) acc else acc)"

definition buildUrl :: "string \<Rightarrow> (string \<times> param_value) list option \<Rightarrow> string" where
  "buildUrl endpoint searchParams =
     (let cleanEndpoint = trim endpoint in
      case searchParams of
        None \<Rightarrow> cleanEndpoint
      | Some ps \<Rightarrow>
          (let filteredParams = fold filter_step ps [];
               queryString = URLSearchParams_toString filteredParams
           in if queryString \<noteq> [] then cleanEndpoint @ ''?'' @ queryString else cleanEndpoint))"


section \<open>Data model (types of the repository, src/types.ts)\<close>

datatype HttpMethod = GET | POST | PUT | PATCH | DELETE

text \<open>
  Field names that several of the source's types share (\<open>url\<close>, \<open>headers\<close>,
  \<open>status\<close>, \<open>message\<close>, \<open>code\<close>, \<open>enableAuth\<close>) carry a prefix per record.

  \<open>ServiceConfig\<close>: \<open>{ url: string; enableAuth?: boolean }\<close>; its \<open>enableAuth\<close> is
  \<open>svc_enableAuth\<close>.
\<close>

record ServiceConfig =
  url :: string
  svc_enableAuth :: "bool option"

record SessionData =
  accessToken :: "string option"

text \<open>
  What a call of the session provider \<open>getSession\<close> settles to: the promise is
  rejected, or resolved with a session or \<open>null\<close>.
\<close>

datatype session_result = SessionRejected string | SessionResolved "SessionData option"

type_synonym headers = "(string \<times> string) list"

text \<open>
  \<open>RetryableAxiosRequestConfig\<close>: the fields of the request descriptor that the
  pipeline reads or writes, with the retry counter \<open>_retryCount?: number\<close>.
\<close>

record request_config =
  rq_url :: string
  rq_method :: HttpMethod
  rq_baseURL :: "string option"
  rq_headers :: headers
  rq_data :: "string option"
  rq_retryCount :: "nat option"

text \<open>
  What the user hook \<open>onRequest\<close> returns: for each field of the request
  descriptor, \<open>None\<close> when the returned object has no such property and \<open>Some\<close>
  of its value when it has. \<open>returned c\<close> is the object \<open>c\<close> itself, as the default
  hook \<open>(config) => config\<close> returns it.
\<close>

record request_overrides =
  ov_url :: "string option"
  ov_method :: "HttpMethod option"
  ov_baseURL :: "string option option"
  ov_headers :: "headers option"
  ov_data :: "string option option"
  ov_retryCount :: "nat option option"

definition returned :: "request_config \<Rightarrow> request_overrides" where
  "returned c =
     \<lparr>ov_url = Some (rq_url c), ov_method = Some (rq_method c), ov_baseURL = Some (rq_baseURL c),
      ov_headers = Some (rq_headers c), ov_data = Some (rq_data c),
      ov_retryCount = Some (rq_retryCount c)\<rparr>"

text \<open>The per-call overrides \<open>config?: AxiosRequestConfig\<close> a caller passes.\<close>

record call_config =
  cc_baseURL :: "string option"
  cc_headers :: headers

text \<open>
  A response body: the two fields the error normaliser reads
  (\<open>data?.message\<close>, \<open>data?.code\<close>) and the rest of the payload.
\<close>

record response_data =
  d_message :: "string option"
  d_code :: "string option"
  d_payload :: string

record response =
  rs_status :: int
  rs_statusText :: string
  rs_data :: "response_data option"

text \<open>
  A failure of the transport, as the transport reports it: \<open>tf_has_config\<close> says
  whether the raised error carries the request descriptor it was raised for
  (\<open>error.config\<close>).
\<close>

record transport_failure =
  tf_message :: string
  tf_code :: "string option"
  tf_status :: "int option"
  tf_response :: "response option"
  tf_has_config :: bool

record axios_error =
  ae_message :: string
  ae_code :: "string option"
  ae_status :: "int option"
  ae_response :: "response option"
  ae_config :: "request_config option"

text \<open>
  The diagnostic bundle that \<open>createApiError\<close> serialises with
  \<open>JSON.stringify\<close>, kept as a structure.
\<close>

record error_context =
  c_endpoint :: string
  c_method :: HttpMethod
  c_service :: string
  c_url :: "string option"
  c_baseURL :: "string option"
  c_headers :: "headers option"
  c_responseData :: "response_data option"

text \<open>
  \<open>class ApiError extends Error\<close> with \<open>status?\<close>, \<open>code?\<close>, \<open>context?\<close>;
  \<open>e_name\<close> is \<open>this.name\<close>, which tells the subclass
  \<open>AuthenticationError\<close> apart.
\<close>

record api_error =
  e_name :: string
  e_message :: string
  e_status :: "int option"
  e_code :: "string option"
  e_context :: "error_context option"

definition ApiError :: "string \<Rightarrow> int option \<Rightarrow> string option \<Rightarrow> error_context option \<Rightarrow> api_error" where
  "ApiError msg st cd ctx =
     \<lparr>e_name = ''ApiError'', e_message = msg, e_status = st, e_code = cd, e_context = ctx\<rparr>"

definition AuthenticationError :: "string \<Rightarrow> api_error" where
  "AuthenticationError msg = (ApiError msg (Some 401) (Some ''AUTHENTICATION_ERROR'') None)\<lparr>e_name := ''AuthenticationError''\<rparr>"

text \<open>
  Everything a caller can see thrown: a plain \<open>Error\<close> (the constructor's, or one
  thrown by a user hook), an \<open>ApiError\<close>, or the transport's own error.
\<close>

datatype js_error = PlainError string | ApiErr api_error | AxiosErr axios_error

text \<open>
  The calls the pipeline makes to its collaborators, in the order they happen.
\<close>

datatype event =
    GetSessionCalled
  | SignOutCalled
  | OnRequestCalled request_config
  | OnResponseCalled response
  | OnRequestErrorCalled api_error
  | TransportCalled request_config
  | Waited int

text \<open>
  \<open>Required<ApiConfig>\<close>. The hooks are functions of what the code passes them;
  \<open>getSession\<close> and \<open>signOut\<close> take the number of earlier calls. A hook that
  throws returns the message of its error (\<open>Inl\<close>, or \<open>Some\<close> for the two hooks
  without a result); what it throws is a plain \<open>Error\<close>, with no \<open>config\<close> and no
  \<open>response\<close>.
\<close>

record config =
  baseUrl :: string
  timeout :: int
  headers :: headers
  enableAuth :: bool
  maxRetries :: int
  retryDelay :: int
  services :: "(string \<times> ServiceConfig) list"
  getSession :: "nat \<Rightarrow> session_result"
  signOut :: "nat \<Rightarrow> string option"
  onRequestError :: "api_error \<Rightarrow> string option"
  debug :: bool
  onRequest :: "request_config \<Rightarrow> string + request_overrides"
  onResponse :: "response \<Rightarrow> string + response"

text \<open>\<open>ApiConfig\<close>, the constructor's options: every field but \<open>baseUrl\<close> is optional.\<close>

record ApiConfig =
  o_baseUrl :: string
  o_timeout :: "int option"
  o_headers :: "headers option"
  o_enableAuth :: "bool option"
  o_maxRetries :: "int option"
  o_retryDelay :: "int option"
  o_services :: "(string \<times> ServiceConfig) list option"
  o_getSession :: "(nat \<Rightarrow> session_result) option"
  o_signOut :: "(nat \<Rightarrow> string option) option"
  o_onRequestError :: "(api_error \<Rightarrow> string option) option"
  o_debug :: "bool option"
  o_onRequest :: "(request_config \<Rightarrow> string + request_overrides) option"
  o_onResponse :: "(response \<Rightarrow> string + response) option"

text \<open>
  An \<open>Api\<close> object: its configuration, the \<open>baseURL\<close> its transport instance was
  created with, whether \<open>setupInterceptors\<close> ran on that instance, the token cache
  \<open>currentToken: string | null\<close>, and the collaborator calls made so far.
\<close>

record api =
  config :: config
  defaultBaseURL :: string
  interceptors :: bool
  currentToken :: "string option"
  trace :: "event list"

text \<open>
  The transport behind the instance: the outcome of its \<open>n\<close>-th invocation (counted
  from 0) on a request descriptor. A response it rejects comes back as a failure.
\<close>

type_synonym transport = "nat \<Rightarrow> request_config \<Rightarrow> transport_failure + response"

section \<open>Construction (\<open>Api.constructor\<close>)\<close>

text \<open>Object spread \<open>{...a, ...b}\<close> on records kept as association lists.\<close>

definition spread :: "('k \<times> 'v) list \<Rightarrow> ('k \<times> 'v) list \<Rightarrow> ('k \<times> 'v) list" where
  "spread a b = fold (\<lambda>kv acc. AList.update (fst kv) (snd kv) acc) b a"

text \<open>\<open>x ?? d\<close>.\<close>

definition nullish :: "'a option \<Rightarrow> 'a \<Rightarrow> 'a" where
  "nullish x d = (case x of None \<Rightarrow> d | Some v \<Rightarrow> v)"

text \<open>
  A property in \<open>{...inherited, ...own}\<close>: the one of the second object when it has
  one.
\<close>

definition override :: "'a option \<Rightarrow> 'a \<Rightarrow> 'a" where
  "override own inherited = (case own of None \<Rightarrow> inherited | Some v \<Rightarrow> v)"

text \<open>
  The constructor after its validation: the defaults are filled in, the transport
  instance is created with the URL of the \<open>private\<close> service (of the \<open>public\<close> one
  when auth is disabled), and \<open>setupInterceptors\<close> runs when the resulting
  \<open>enableAuth\<close> is true.
\<close>

definition build :: "ApiConfig \<Rightarrow> api" where
  "build options =
     (let cfg = \<lparr>
            baseUrl = o_baseUrl options,
            timeout = nullish (o_timeout options) 10000,
            headers = spread [(''Content-Type'', ''application/json'')] (nullish (o_headers options) []),
            enableAuth = nullish (o_enableAuth options) True,
            maxRetries = nullish (o_maxRetries options) 3,
            retryDelay = nullish (o_retryDelay options) 1000,
            services = spread
              [(''public'', \<lparr>url = o_baseUrl options, svc_enableAuth = Some False\<rparr>),
               (''private'', \<lparr>url = o_baseUrl options, svc_enableAuth = Some True\<rparr>)]
              (nullish (o_services options) []),
            getSession = nullish (o_getSession options) (\<lambda>_. SessionResolved None),
            signOut = nullish (o_signOut options) (\<lambda>_. None),
            onRequestError = nullish (o_onRequestError options) (\<lambda>_. None),
            debug = nullish (o_debug options) False,
            onRequest = nullish (o_onRequest options) (\<lambda>c. Inr (returned c)),
            onResponse = nullish (o_onResponse options) Inr\<rparr>
      in \<lparr>config = cfg,
          defaultBaseURL =
            (if enableAuth cfg
             then url (override (map_of (nullish (o_services options) []) ''private'')
                         \<lparr>url = o_baseUrl options, svc_enableAuth = Some True\<rparr>)
             else url (override (map_of (nullish (o_services options) []) ''public'')
                         \<lparr>url = o_baseUrl options, svc_enableAuth = Some False\<rparr>)),
          interceptors = enableAuth cfg, currentToken = None, trace = []\<rparr>)"

text \<open>
  The constructor: \<open>if (options.enableAuth)\<close> tests the option as given, so only
  an explicit \<open>true\<close> enters the validation.
\<close>

definition Api_new :: "ApiConfig \<Rightarrow> js_error + api" where
  "Api_new options =
     (if o_enableAuth options = Some True \<and> (o_getSession options = None \<or> o_signOut options = None)
      then Inl (PlainError ''getSession and signOut functions are required when enableAuth is true'')
      else Inr (build options))"

section \<open>Token cache (\<open>getCurrentToken\<close>, \<open>setToken\<close>, \<open>clearToken\<close>)\<close>

text \<open>Truthiness of a \<open>string | null\<close> value: neither \<open>null\<close> nor empty.\<close>

definition truthy :: "string option \<Rightarrow> bool" where
  "truthy t = (case t of None \<Rightarrow> False | Some s \<Rightarrow> s \<noteq> [])"

fun isGetSession :: "event \<Rightarrow> bool" where
  "isGetSession GetSessionCalled = True"
| "isGetSession _ = False"

fun isSignOut :: "event \<Rightarrow> bool" where
  "isSignOut SignOutCalled = True"
| "isSignOut _ = False"

fun isOnRequest :: "event \<Rightarrow> bool" where
  "isOnRequest (OnRequestCalled _) = True"
| "isOnRequest _ = False"

fun isOnResponse :: "event \<Rightarrow> bool" where
  "isOnResponse (OnResponseCalled _) = True"
| "isOnResponse _ = False"

fun isOnRequestError :: "event \<Rightarrow> bool" where
  "isOnRequestError (OnRequestErrorCalled _) = True"
| "isOnRequestError _ = False"

fun isTransport :: "event \<Rightarrow> bool" where
  "isTransport (TransportCalled _) = True"
| "isTransport _ = False"

definition calls :: "(event \<Rightarrow> bool) \<Rightarrow> api \<Rightarrow> nat" where
  "calls p a = length (filter p (trace a))"

definition emit :: "event \<Rightarrow> api \<Rightarrow> api" where
  "emit e a = a\<lparr>trace := trace a @ [e]\<rparr>"

text \<open>\<open>session?.accessToken || null\<close>.\<close>

definition session_token :: "SessionData option \<Rightarrow> string option" where
  "session_token session =
     (case session of None \<Rightarrow> None
      | Some sd \<Rightarrow> (if truthy (accessToken sd) then accessToken sd else None))"

definition getCurrentToken :: "api \<Rightarrow> string option \<times> api" where
  "getCurrentToken a =
     (if \<not> enableAuth (config a) then (None, a)
      else if truthy (currentToken a) then (currentToken a, a)
      else
        (let a1 = emit GetSessionCalled a in
         case getSession (config a) (calls isGetSession a) of
           SessionRejected err \<Rightarrow> (None, a1)
         | SessionResolved session \<Rightarrow>
             (let token = session_token session in
              (token, if truthy token then a1\<lparr>currentToken := token\<rparr> else a1))))"

definition clearToken :: "api \<Rightarrow> api" where
  "clearToken a = a\<lparr>currentToken := None\<rparr>"

definition setToken :: "string \<Rightarrow> api \<Rightarrow> api" where
  "setToken token a = a\<lparr>currentToken := Some token\<rparr>"

definition isAuthEnabled :: "api \<Rightarrow> bool" where
  "isAuthEnabled a = enableAuth (config a)"


section \<open>Service registry (\<open>getServiceByUrl\<close>, \<open>getServiceConfig\<close>)\<close>

text \<open>
  The \<open>for ... in\<close> loop over the registry returns the first entry, in the
  registry's own order, whose \<open>url\<close> is the given one.
\<close>

definition getServiceByUrl :: "api \<Rightarrow> string option \<Rightarrow> ServiceConfig option" where
  "getServiceByUrl a u =
     map_option snd (find (\<lambda>kv. Some (url (snd kv)) = u) (services (config a)))"

text \<open>
  \<open>if (token) headers.Authorization = `Bearer ${token}`\<close>, the same at both places
  that attach the header.
\<close>

definition attachToken :: "string option \<Rightarrow> headers \<Rightarrow> headers" where
  "attachToken token hs =
     (case token of
        None \<Rightarrow> hs
      | Some t \<Rightarrow> (if t \<noteq> [] then AList.update ''Authorization'' (''Bearer '' @ t) hs else hs))"

definition service_not_found :: "string \<Rightarrow> string" where
  "service_not_found service = ''Service '' @ [CHR 0x27] @ service @ [CHR 0x27] @ '' not found in configuration''"

text \<open>
  \<open>this.config.services[service]\<close> reads a property of a plain object: an entry
  of the registry, or else what every object inherits from \<open>Object.prototype\<close>
  under that name, a function or an object, which is truthy and has neither
  \<open>url\<close> nor \<open>enableAuth\<close>.
\<close>

definition Object_prototype_names :: "string list" where
  "Object_prototype_names =
     [''constructor'', ''__defineGetter__'', ''__defineSetter__'', ''hasOwnProperty'',
      ''__lookupGetter__'', ''__lookupSetter__'', ''isPrototypeOf'', ''propertyIsEnumerable'',
      ''toString'', ''valueOf'', ''__proto__'', ''toLocaleString'']"

datatype property = Own ServiceConfig | Inherited

definition service_property :: "api \<Rightarrow> string \<Rightarrow> property option" where
  "service_property a name =
     (case map_of (services (config a)) name of
        Some serviceConfig \<Rightarrow> Some (Own serviceConfig)
      | None \<Rightarrow> (if name \<in> set Object_prototype_names then Some Inherited else None))"

definition getServiceConfig :: "api \<Rightarrow> string \<Rightarrow> call_config \<Rightarrow> (js_error + call_config) \<times> api" where
  "getServiceConfig a service cc =
     (case service_property a service of
        None \<Rightarrow> (Inl (ApiErr (ApiError (service_not_found service) None None None)), a)
      | Some Inherited \<Rightarrow> (Inr \<lparr>cc_baseURL = None, cc_headers = cc_headers cc\<rparr>, a)
      | Some (Own serviceConfig) \<Rightarrow>
          (if svc_enableAuth serviceConfig = Some True \<and> enableAuth (config a)
           then (case getCurrentToken a of
                   (token, a1) \<Rightarrow>
                     (Inr \<lparr>cc_baseURL = Some (url serviceConfig),
                           cc_headers = attachToken token (cc_headers cc)\<rparr>, a1))
           else (Inr \<lparr>cc_baseURL = Some (url serviceConfig), cc_headers = cc_headers cc\<rparr>, a)))"

section \<open>Interceptors (\<open>setupInterceptors\<close>)\<close>

text \<open>
  The request interceptor. \<open>{...config, ...modifiedConfig, headers: {...}}\<close>: a
  property the hook's object has wins over the one of \<open>config\<close>, the retry counter
  \<open>_retryCount\<close> included, and the headers of both are merged.
\<close>

definition merged :: "request_config \<Rightarrow> request_overrides \<Rightarrow> request_config" where
  "merged cfg modifiedConfig =
     \<lparr>rq_url = override (ov_url modifiedConfig) (rq_url cfg),
      rq_method = override (ov_method modifiedConfig) (rq_method cfg),
      rq_baseURL = override (ov_baseURL modifiedConfig) (rq_baseURL cfg),
      rq_headers = spread (rq_headers cfg) (override (ov_headers modifiedConfig) []),
      rq_data = override (ov_data modifiedConfig) (rq_data cfg),
      rq_retryCount = override (ov_retryCount modifiedConfig) (rq_retryCount cfg)\<rparr>"

definition requestInterceptor :: "api \<Rightarrow> request_config \<Rightarrow> (js_error + request_config) \<times> api" where
  "requestInterceptor a cfg =
     (let a1 = emit (OnRequestCalled cfg) a in
      case onRequest (config a) cfg of
        Inl msg \<Rightarrow> (Inl (PlainError msg), a1)
      | Inr modifiedConfig \<Rightarrow>
          (let internalConfig = merged cfg modifiedConfig
           in case getServiceByUrl a1 (rq_baseURL internalConfig) of
                None \<Rightarrow> (Inr internalConfig, a1)
              | Some serviceConfig \<Rightarrow>
                  (if svc_enableAuth serviceConfig = Some True
                   then (case getCurrentToken a1 of
                           (token, a2) \<Rightarrow>
                             (Inr (internalConfig\<lparr>rq_headers := attachToken token (rq_headers internalConfig)\<rparr>), a2))
                   else (Inr internalConfig, a1))))"

text \<open>
  The error the transport raises for a request: it carries the request descriptor
  when the transport says so.
\<close>

definition raised :: "transport_failure \<Rightarrow> request_config \<Rightarrow> axios_error" where
  "raised f rq =
     \<lparr>ae_message = tf_message f, ae_code = tf_code f, ae_status = tf_status f,
      ae_response = tf_response f,
      ae_config = (if tf_has_config f then Some rq else None)\<rparr>"

text \<open>
  Every call of the instance first merges the request over the instance's
  defaults; of these the base URL is modelled: a request without \<open>baseURL\<close> gets
  the instance's.
\<close>

definition with_defaults :: "api \<Rightarrow> request_config \<Rightarrow> request_config" where
  "with_defaults a rq = rq\<lparr>rq_baseURL := Some (nullish (rq_baseURL rq) (defaultBaseURL a))\<rparr>"

text \<open>
  The first half of one pass through the instance: the request interceptor, then
  the transport. A rejection of the request interceptor skips the transport and
  reaches the response error handler like a transport failure does.
\<close>

definition send :: "transport \<Rightarrow> api \<Rightarrow> request_config \<Rightarrow> (js_error + response) \<times> api" where
  "send tr a cfg =
     (case requestInterceptor a (with_defaults a cfg) of
        (Inl e, a1) \<Rightarrow> (Inl e, a1)
      | (Inr rq, a1) \<Rightarrow>
          (case tr (calls isTransport a1) rq of
             Inr resp \<Rightarrow> (Inr resp, emit (TransportCalled rq) a1)
           | Inl f \<Rightarrow> (Inl (AxiosErr (raised f rq)), emit (TransportCalled rq) a1)))"

text \<open>The response interceptor's success handler.\<close>

definition responseFulfilled :: "api \<Rightarrow> response \<Rightarrow> (js_error + response) \<times> api" where
  "responseFulfilled a resp =
     (case onResponse (config a) resp of
        Inl msg \<Rightarrow> (Inl (PlainError msg), emit (OnResponseCalled resp) a)
      | Inr r \<Rightarrow> (Inr r, emit (OnResponseCalled resp) a))"

text \<open>What the error handler reads from the error it is given.\<close>

fun err_config :: "js_error \<Rightarrow> request_config option" where
  "err_config (AxiosErr e) = ae_config e"
| "err_config _ = None"

fun err_response :: "js_error \<Rightarrow> response option" where
  "err_response (AxiosErr e) = ae_response e"
| "err_response _ = None"

fun err_message :: "js_error \<Rightarrow> string" where
  "err_message (PlainError m) = m"
| "err_message (ApiErr e) = e_message e"
| "err_message (AxiosErr e) = ae_message e"

fun err_code :: "js_error \<Rightarrow> string option" where
  "err_code (PlainError m) = None"
| "err_code (ApiErr e) = e_code e"
| "err_code (AxiosErr e) = ae_code e"

fun err_status :: "js_error \<Rightarrow> int option" where
  "err_status (PlainError m) = None"
| "err_status (ApiErr e) = e_status e"
| "err_status (AxiosErr e) = ae_status e"

text \<open>
  The branch the error handler takes, tested in the source's order: no request
  descriptor, status 401, a status of 500 or more with retries left, anything else.
  \<open>Retry\<close> carries the request with its counter incremented.
\<close>

datatype action = NoConfig | Unauthorized | Retry request_config | Final request_config

definition classify :: "api \<Rightarrow> js_error \<Rightarrow> action" where
  "classify a error =
     (case err_config error of
        None \<Rightarrow> NoConfig
      | Some originalRequest \<Rightarrow>
          (if map_option rs_status (err_response error) = Some 401 then Unauthorized
           else if (case err_response error of
                      None \<Rightarrow> False
                    | Some r \<Rightarrow> rs_status r \<noteq> 0 \<and> rs_status r \<ge> 500)
                   \<and> int (nullish (rq_retryCount originalRequest) 0) < maxRetries (config a)
           then Retry (originalRequest\<lparr>rq_retryCount := Some (nullish (rq_retryCount originalRequest) 0 + 1)\<rparr>)
           else Final originalRequest))"

text \<open>
  \<open>try { await onResponse(r) } catch { log }\<close>: the hook is called, its result
  and its exception are dropped.
\<close>

definition onResponse_guarded :: "api \<Rightarrow> response \<Rightarrow> api" where
  "onResponse_guarded a r = emit (OnResponseCalled r) a"

definition shell :: "int \<Rightarrow> string \<Rightarrow> response" where
  "shell st txt = \<lparr>rs_status = st, rs_statusText = txt, rs_data = None\<rparr>"

definition rejectNoConfig :: "api \<Rightarrow> js_error \<Rightarrow> (js_error + response) \<times> api" where
  "rejectNoConfig a error =
     (Inl error, onResponse_guarded a (nullish (err_response error) (shell 0 ''No Response'')))"

definition rejectUnauthorized :: "api \<Rightarrow> js_error \<Rightarrow> (js_error + response) \<times> api" where
  "rejectUnauthorized a error =
     (let a1 = emit SignOutCalled a in
      case signOut (config a) (calls isSignOut a) of
        Some msg \<Rightarrow> (Inl (PlainError msg), a1)
      | None \<Rightarrow>
          (Inl (ApiErr (AuthenticationError ''Unauthorized, user logged out.'')),
           onResponse_guarded a1 (nullish (err_response error) (shell 401 ''Unauthorized''))))"

text \<open>\<open>createApiError\<close>; \<open>x || y\<close> on strings takes \<open>y\<close> when \<open>x\<close> is absent or empty.\<close>

definition createApiError :: "js_error \<Rightarrow> string \<Rightarrow> HttpMethod \<Rightarrow> string \<Rightarrow> api_error" where
  "createApiError error endpoint method service =
     (let rdata = (case err_response error of None \<Rightarrow> None | Some r \<Rightarrow> rs_data r);
          dmsg = (case rdata of None \<Rightarrow> None | Some d \<Rightarrow> d_message d);
          dcode = (case rdata of None \<Rightarrow> None | Some d \<Rightarrow> d_code d)
      in ApiError
           (case dmsg of Some m \<Rightarrow> (if m \<noteq> [] then m else err_message error) | None \<Rightarrow> err_message error)
           (map_option rs_status (err_response error))
           (if truthy dcode then dcode else err_code error)
           (Some \<lparr>c_endpoint = endpoint, c_method = method, c_service = service,
                  c_url = map_option rq_url (err_config error),
                  c_baseURL = (case err_config error of None \<Rightarrow> None | Some c \<Rightarrow> rq_baseURL c),
                  c_headers = map_option rq_headers (err_config error),
                  c_responseData = rdata\<rparr>))"

text \<open>
  The last branch of the error handler: \<open>createApiError\<close>, \<open>handleRequestError\<close>
  (which calls \<open>onRequestError\<close> outside any \<open>try\<close>), the guarded \<open>onResponse\<close>,
  and the rejection with the \<open>ApiError\<close>.
\<close>

definition rejectFinal :: "api \<Rightarrow> js_error \<Rightarrow> request_config \<Rightarrow> (js_error + response) \<times> api" where
  "rejectFinal a error originalRequest =
     (let apiError = createApiError error (rq_url originalRequest) (rq_method originalRequest) ''private'';
          a1 = emit (OnRequestErrorCalled apiError) a
      in case onRequestError (config a) apiError of
           Some msg \<Rightarrow> (Inl (PlainError msg), a1)
         | None \<Rightarrow>
             (Inl (ApiErr apiError),
              onResponse_guarded a1
                (nullish (err_response error)
                   (shell (case err_status error of None \<Rightarrow> 0 | Some st \<Rightarrow> st)
                          (if err_message error \<noteq> [] then err_message error else ''Error'')))))"

text \<open>
  One call of the instance with the interceptors installed. The retry branch waits
  and calls the instance again on the request of the error, whose counter it has
  incremented. Nothing bounds the counter an \<open>onRequest\<close> hook may write, so the
  call need not return: \<open>None\<close> is the call that retries for ever.
\<close>

partial_function (option) dispatch ::
  "transport \<Rightarrow> api \<Rightarrow> request_config \<Rightarrow> ((js_error + response) \<times> api) option" where
  "dispatch tr a cfg =
     (case send tr a cfg of
        (Inr resp, a1) \<Rightarrow> Some (responseFulfilled a1 resp)
      | (Inl error, a1) \<Rightarrow>
          (case classify a1 error of
             NoConfig \<Rightarrow> Some (rejectNoConfig a1 error)
           | Unauthorized \<Rightarrow> Some (rejectUnauthorized a1 error)
           | Retry originalRequest \<Rightarrow>
               dispatch tr (emit (Waited (retryDelay (config a1))) a1) originalRequest
           | Final originalRequest \<Rightarrow> Some (rejectFinal a1 error originalRequest)))"

declare dispatch.simps [code]

text \<open>
  The instance as the constructor leaves it: with the interceptors when
  \<open>setupInterceptors\<close> ran, and otherwise the bare transport, whose failure reaches
  the caller as it is raised.
\<close>

definition axiosInstance ::
  "transport \<Rightarrow> api \<Rightarrow> request_config \<Rightarrow> ((js_error + response) \<times> api) option" where
  "axiosInstance tr a rq =
     (if interceptors a then dispatch tr a rq
      else (case tr (calls isTransport a) (with_defaults a rq) of
              Inr resp \<Rightarrow> Some (Inr resp, emit (TransportCalled (with_defaults a rq)) a)
            | Inl f \<Rightarrow>
                Some (Inl (AxiosErr (raised f (with_defaults a rq))),
                      emit (TransportCalled (with_defaults a rq)) a)))"

section \<open>Requests (\<open>executeRequest\<close>, \<open>request\<close> and the verb methods)\<close>

text \<open>
  \<open>executeRequest\<close> sets \<open>_retryCount: 0\<close>, passes the body for \<open>post\<close>,
  \<open>put\<close> and \<open>patch\<close> only, and returns the \<open>data\<close> of the response.
\<close>

definition executeRequest ::
  "transport \<Rightarrow> api \<Rightarrow> HttpMethod \<Rightarrow> string \<Rightarrow> string option \<Rightarrow> call_config
     \<Rightarrow> ((js_error + response_data option) \<times> api) option" where
  "executeRequest tr a method u body cc =
     (let requestConfig =
            \<lparr>rq_url = u, rq_method = method, rq_baseURL = cc_baseURL cc,
             rq_headers = cc_headers cc,
             rq_data = (case method of POST \<Rightarrow> body | PUT \<Rightarrow> body | PATCH \<Rightarrow> body
                        | DELETE \<Rightarrow> None | GET \<Rightarrow> None),
             rq_retryCount = Some 0\<rparr>
      in case axiosInstance tr a requestConfig of
           None \<Rightarrow> None
         | Some (Inl e, a1) \<Rightarrow> Some (Inl e, a1)
         | Some (Inr resp, a1) \<Rightarrow> Some (Inr (rs_data resp), a1))"

text \<open>
  \<open>RequestConfig\<close>: \<open>service\<close> defaults to \<open>'private'\<close>, \<open>config\<close> to \<open>{}\<close>.
  The fields \<open>method\<close>, \<open>data\<close> and \<open>config\<close> are \<open>httpMethod\<close>, \<open>body\<close> and
  \<open>callConfig\<close> here.
\<close>

record RequestConfig =
  endpoint :: string
  httpMethod :: HttpMethod
  body :: "string option"
  searchParams :: "(string \<times> param_value) list option"
  service :: "string option"
  callConfig :: "call_config option"

definition request ::
  "transport \<Rightarrow> api \<Rightarrow> RequestConfig \<Rightarrow> ((js_error + response_data option) \<times> api) option" where
  "request tr a r =
     (case getServiceConfig a (nullish (service r) ''private'')
             (nullish (callConfig r) \<lparr>cc_baseURL = None, cc_headers = []\<rparr>) of
        (Inl e, a1) \<Rightarrow> Some (Inl e, a1)
      | (Inr serviceConfig, a1) \<Rightarrow>
          executeRequest tr a1 (httpMethod r) (buildUrl (endpoint r) (searchParams r)) (body r) serviceConfig)"

definition get_request :: "transport \<Rightarrow> api \<Rightarrow> string \<Rightarrow> (string \<times> param_value) list option \<Rightarrow> string option
     \<Rightarrow> call_config option \<Rightarrow> ((js_error + response_data option) \<times> api) option" where
  "get_request tr a ep sp svc cc =
     request tr a \<lparr>endpoint = ep, httpMethod = GET, body = None, searchParams = sp, service = svc, callConfig = cc\<rparr>"

definition post_request :: "transport \<Rightarrow> api \<Rightarrow> string \<Rightarrow> string option \<Rightarrow> string option
     \<Rightarrow> call_config option \<Rightarrow> ((js_error + response_data option) \<times> api) option" where
  "post_request tr a ep d svc cc =
     request tr a \<lparr>endpoint = ep, httpMethod = POST, body = d, searchParams = None, service = svc, callConfig = cc\<rparr>"



definition reported :: "api \<Rightarrow> event list" where
  "reported a = filter isOnRequestError (trace a)"

section \<open>Example configurations, transports and requests\<close>

text \<open>Only \<open>baseUrl\<close> is given.\<close>

definition minimal_options :: ApiConfig where
  "minimal_options =
     \<lparr>o_baseUrl = ''https://api.example.com'', o_timeout = None, o_headers = None,
      o_enableAuth = None, o_maxRetries = None, o_retryDelay = None, o_services = None,
      o_getSession = None, o_signOut = None, o_onRequestError = None, o_debug = None,
      o_onRequest = None, o_onResponse = None\<rparr>"

text \<open>
  The configuration of the repository's tests: auth enabled, a session provider
  that resolves with the token \<open>fake-token\<close>, a sign-out handler that resolves.
\<close>

definition auth_options :: ApiConfig where
  "auth_options = minimal_options
     \<lparr>o_enableAuth := Some True,
      o_getSession := Some (\<lambda>_. SessionResolved (Some \<lparr>accessToken = Some ''fake-token''\<rparr>)),
      o_signOut := Some (\<lambda>_. None)\<rparr>"

definition noauth_options :: ApiConfig where
  "noauth_options = minimal_options\<lparr>o_enableAuth := Some False\<rparr>"

text \<open>
  Auth enabled, and a service \<open>service_1\<close> without auth at the URL of the
  \<open>private\<close> service.
\<close>

definition shared_url_options :: ApiConfig where
  "shared_url_options = auth_options
     \<lparr>o_services := Some
        [(''public'', \<lparr>url = ''https://cdn.example.com'', svc_enableAuth = Some False\<rparr>),
         (''private'', \<lparr>url = ''https://api.example.com'', svc_enableAuth = Some True\<rparr>),
         (''service_1'', \<lparr>url = ''https://api.example.com'', svc_enableAuth = Some False\<rparr>)]\<rparr>"

text \<open>A transport that fails every request with a response of the given status.\<close>

definition status_failure :: "int \<Rightarrow> transport_failure" where
  "status_failure st =
     \<lparr>tf_message = ''Request failed'', tf_code = Some ''ERR_BAD_RESPONSE'', tf_status = Some st,
      tf_response = Some \<lparr>rs_status = st, rs_statusText = [], rs_data = None\<rparr>,
      tf_has_config = True\<rparr>"

definition always_status :: "int \<Rightarrow> transport" where
  "always_status st n rq = Inl (status_failure st)"

text \<open>A transport that answers every request with 200 and an empty body.\<close>

definition always_ok :: transport where
  "always_ok n rq = Inr \<lparr>rs_status = 200, rs_statusText = ''OK'', rs_data = None\<rparr>"

definition get_data :: "string option \<Rightarrow> RequestConfig" where
  "get_data svc =
     \<lparr>endpoint = ''/data'', httpMethod = GET, body = None, searchParams = None,
      service = svc, callConfig = None\<rparr>"


text \<open>As \<open>auth_options\<close>, with a session provider that rejects.\<close>

definition rejecting_options :: ApiConfig where
  "rejecting_options = auth_options\<lparr>o_getSession := Some (\<lambda>_. SessionRejected ''Session error'')\<rparr>"







section \<open>The URL builder drops empty parameters\<close>

lemma fold_filter_step:
  "fold filter_step (filter (\<lambda>kv. keeps (snd kv)) ps) acc = fold filter_step ps acc"
  by (induction ps arbitrary: acc) (simp_all add: filter_step_def)

lemma trim_users: "trim '' /users '' = ''/users''"
  by code_simp

lemma query_page_active:
  "URLSearchParams_toString (fold filter_step [(''page'', PNum 1), (''active'', PBool True)] []) = ''page=1&active=true''"
  by code_simp

text \<open>
  C9. \<open>buildUrl\<close> builds the same URL from a parameter object and from that object
  without the entries whose value is \<open>undefined\<close>, \<open>null\<close> or the empty string.
  So \<open>{page:1, limit:undefined, active:true, filter:""}\<close> and
  \<open>{page:1, active:true}\<close> give the same URL, the trimmed path followed by
  \<open>?page=1&active=true\<close>; and when no entry is left, or no parameter object is
  given, the URL is the trimmed path, with no \<open>?\<close> added.
\<close>

theorem buildUrl_drops_empty_params:
  "buildUrl ep (Some ps) = buildUrl ep (Some (filter (\<lambda>kv. snd kv \<noteq> PUndefined \<and> snd kv \<noteq> PNull \<and> snd kv \<noteq> PStr []) ps))
   \<and> buildUrl ep (Some [(''page'', PNum 1), (''limit'', PUndefined), (''active'', PBool True), (''filter'', PStr [])])
       = buildUrl ep (Some [(''page'', PNum 1), (''active'', PBool True)])
   \<and> buildUrl ep (Some [(''page'', PNum 1), (''active'', PBool True)]) = trim ep @ ''?page=1&active=true''
   \<and> (filter (\<lambda>kv. snd kv \<noteq> PUndefined \<and> snd kv \<noteq> PNull \<and> snd kv \<noteq> PStr []) ps = [] \<longrightarrow> buildUrl ep (Some ps) = trim ep)
   \<and> buildUrl ep None = trim ep"
proof -
  have drop: "buildUrl ep (Some qs) = buildUrl ep (Some (filter (\<lambda>kv. snd kv \<noteq> PUndefined \<and> snd kv \<noteq> PNull \<and> snd kv \<noteq> PStr []) qs))" for qs
    using fold_filter_step [of qs "[]"] by (simp add: buildUrl_def keeps_def)
  have ex: "buildUrl ep (Some [(''page'', PNum 1), (''active'', PBool True)]) = trim ep @ ''?page=1&active=true''"
    using query_page_active by (simp add: buildUrl_def)
  have emp: "buildUrl ep (Some ps) = trim ep" if "filter (\<lambda>kv. snd kv \<noteq> PUndefined \<and> snd kv \<noteq> PNull \<and> snd kv \<noteq> PStr []) ps = []"
    using drop [of ps] that by (simp add: buildUrl_def URLSearchParams_toString_def)
  have none: "buildUrl ep None = trim ep" by (simp add: buildUrl_def)
  from drop [of "[(''page'', PNum 1), (''limit'', PUndefined), (''active'', PBool True), (''filter'', PStr [])]"]
  have same: "buildUrl ep (Some [(''page'', PNum 1), (''limit'', PUndefined), (''active'', PBool True), (''filter'', PStr [])])
       = buildUrl ep (Some [(''page'', PNum 1), (''active'', PBool True)])" by simp
  show ?thesis using drop [of ps] same ex emp none by blast
qed

theorem buildUrl_drops_empty_params_witness:
  "filter (\<lambda>kv. snd kv \<noteq> PUndefined \<and> snd kv \<noteq> PNull \<and> snd kv \<noteq> PStr []) [(''limit'', PUndefined), (''filter'', PStr []), (''x'', PNull)] = []
   \<and> buildUrl '' /users '' (Some [(''limit'', PUndefined), (''filter'', PStr []), (''x'', PNull)]) = ''/users''"
proof -
  have h: "filter (\<lambda>kv. snd kv \<noteq> PUndefined \<and> snd kv \<noteq> PNull \<and> snd kv \<noteq> PStr []) [(''limit'', PUndefined), (''filter'', PStr []), (''x'', PNull)] = []"
    by simp
  from buildUrl_drops_empty_params [of "'' /users ''" "[(''limit'', PUndefined), (''filter'', PStr []), (''x'', PNull)]"]
  have "filter (\<lambda>kv. snd kv \<noteq> PUndefined \<and> snd kv \<noteq> PNull \<and> snd kv \<noteq> PStr []) [(''limit'', PUndefined), (''filter'', PStr []), (''x'', PNull)] = []
     \<longrightarrow> buildUrl '' /users '' (Some [(''limit'', PUndefined), (''filter'', PStr []), (''x'', PNull)]) = trim '' /users ''"
    by blast
  with h trim_users show ?thesis by simp
qed


section \<open>The token cache\<close>

lemma ex_noauth: "\<not> enableAuth (config (build noauth_options))"
  by (simp add: build_def noauth_options_def minimal_options_def nullish_def)

lemma ex_auth: "enableAuth (config (build auth_options))" "currentToken (build auth_options) = None"
  "getSession (config (build auth_options)) n = SessionResolved (Some \<lparr>accessToken = Some ''fake-token''\<rparr>)"
  by (simp_all add: build_def auth_options_def minimal_options_def nullish_def)

lemma ex_rejecting: "enableAuth (config (build rejecting_options))" "currentToken (build rejecting_options) = None"
  "getSession (config (build rejecting_options)) n = SessionRejected ''Session error''"
  by (simp_all add: build_def rejecting_options_def auth_options_def minimal_options_def nullish_def)

lemma minimal_session: "enableAuth (config (build minimal_options))" "currentToken (build minimal_options) = None"
  "getSession (config (build minimal_options)) n = SessionResolved None"
  by (simp_all add: build_def minimal_options_def nullish_def)

lemma ex_auth_refetch: "fst (getCurrentToken (clearToken (build auth_options))) = Some ''fake-token''"
  by (simp add: getCurrentToken_def clearToken_def emit_def truthy_def session_token_def build_def
        auth_options_def minimal_options_def nullish_def Let_def)

lemma ex_auth_calls: "calls p (build auth_options) = 0"
  by (simp add: calls_def build_def)

text \<open>
  C7. \<open>getCurrentToken\<close>, case by case in the order the code tests them. With global
  auth disabled it returns \<open>null\<close> and leaves the object as it is (no provider call).
  Otherwise, with a non-empty token cached, it returns that token and leaves the
  object as it is. Otherwise it calls the session provider once: a session with a
  non-empty access token is cached and returned; a rejection, no session, or a
  session without a non-empty access token gives \<open>null\<close> and leaves the cache as it
  was, holding no usable token. The result is a value in every case: the function
  has no error result.
\<close>

theorem getCurrentToken_cases:
  "(\<not> enableAuth (config a) \<longrightarrow> getCurrentToken a = (None, a))
   \<and> (enableAuth (config a) \<and> currentToken a = Some t \<and> t \<noteq> [] \<longrightarrow> getCurrentToken a = (Some t, a))
   \<and> (enableAuth (config a) \<and> \<not> truthy (currentToken a)
        \<and> getSession (config a) (calls isGetSession a) = SessionResolved (Some sd)
        \<and> accessToken sd = Some t \<and> t \<noteq> []
      \<longrightarrow> getCurrentToken a = (Some t, a\<lparr>trace := trace a @ [GetSessionCalled], currentToken := Some t\<rparr>))
   \<and> (enableAuth (config a) \<and> \<not> truthy (currentToken a)
        \<and> (getSession (config a) (calls isGetSession a) = SessionRejected msg
           \<or> getSession (config a) (calls isGetSession a) = SessionResolved None
           \<or> getSession (config a) (calls isGetSession a) = SessionResolved (Some sd) \<and> \<not> truthy (accessToken sd))
      \<longrightarrow> getCurrentToken a = (None, a\<lparr>trace := trace a @ [GetSessionCalled]\<rparr>)
          \<and> \<not> truthy (currentToken (snd (getCurrentToken a))))"
  by (auto simp: getCurrentToken_def emit_def truthy_def session_token_def Let_def)

theorem getCurrentToken_cases_witness:
  "getCurrentToken (build noauth_options) = (None, build noauth_options)
   \<and> getCurrentToken (setToken ''manual-token'' (build auth_options))
       = (Some ''manual-token'', setToken ''manual-token'' (build auth_options))
   \<and> getCurrentToken (build auth_options)
       = (Some ''fake-token'', (build auth_options)\<lparr>trace := [GetSessionCalled], currentToken := Some ''fake-token''\<rparr>)
   \<and> getCurrentToken (build rejecting_options)
       = (None, (build rejecting_options)\<lparr>trace := [GetSessionCalled]\<rparr>)
   \<and> getCurrentToken (build minimal_options)
       = (None, (build minimal_options)\<lparr>trace := [GetSessionCalled]\<rparr>)"
proof -
  have 1: "getCurrentToken (build noauth_options) = (None, build noauth_options)"
    using getCurrentToken_cases [of "build noauth_options"] ex_noauth by blast
  have 2: "getCurrentToken (setToken ''manual-token'' (build auth_options))
       = (Some ''manual-token'', setToken ''manual-token'' (build auth_options))"
    using getCurrentToken_cases [of "setToken ''manual-token'' (build auth_options)" "''manual-token''"] ex_auth
    by (simp add: setToken_def)
  have 3: "getCurrentToken (build auth_options)
       = (Some ''fake-token'', (build auth_options)\<lparr>trace := [GetSessionCalled], currentToken := Some ''fake-token''\<rparr>)"
    using getCurrentToken_cases [of "build auth_options" "''fake-token''" "\<lparr>accessToken = Some ''fake-token''\<rparr>"] ex_auth
    by (simp add: truthy_def build_def)
  have 4: "getCurrentToken (build rejecting_options)
       = (None, (build rejecting_options)\<lparr>trace := [GetSessionCalled]\<rparr>)"
    using getCurrentToken_cases [of "build rejecting_options" _ _ "''Session error''"] ex_rejecting
    by (simp add: truthy_def build_def)
  have 5: "getCurrentToken (build minimal_options)
       = (None, (build minimal_options)\<lparr>trace := [GetSessionCalled]\<rparr>)"
    using getCurrentToken_cases [of "build minimal_options"] minimal_session
    by (simp add: truthy_def build_def)
  from 1 2 3 4 5 show ?thesis by blast
qed

text \<open>
  C10, as stated, fails with global auth disabled: after \<open>setToken('')\<close> the next
  \<open>getCurrentToken\<close> returns \<open>null\<close> at its first test and the session provider
  is not called.
\<close>

theorem setToken_empty_auth_disabled_counterexample:
  "Api_new noauth_options = Inr (build noauth_options)
   \<and> trace (build noauth_options) = []
   \<and> getCurrentToken (setToken [] (build noauth_options)) = (None, setToken [] (build noauth_options))
   \<and> calls isGetSession (snd (getCurrentToken (setToken [] (build noauth_options)))) = 0"
  by (simp add: Api_new_def getCurrentToken_def setToken_def calls_def build_def noauth_options_def minimal_options_def nullish_def)

text \<open>
  C10, amended. With global auth enabled, \<open>setToken('')\<close> installs no cached token:
  the next \<open>getCurrentToken\<close> calls the session provider once and returns what a
  call after \<open>clearToken()\<close> returns, never the empty string.
\<close>

theorem setToken_empty_refetches:
  "enableAuth (config a) \<Longrightarrow>
     calls isGetSession (snd (getCurrentToken (setToken [] a))) = calls isGetSession a + 1
     \<and> fst (getCurrentToken (setToken [] a)) = fst (getCurrentToken (clearToken a))
     \<and> fst (getCurrentToken (setToken [] a)) \<noteq> Some []
     \<and> trace (snd (getCurrentToken (setToken [] a))) = trace a @ [GetSessionCalled]"
  by (auto simp: getCurrentToken_def setToken_def clearToken_def calls_def emit_def truthy_def
        session_token_def Let_def split: session_result.splits option.splits)

theorem setToken_empty_refetches_witness:
  "enableAuth (config (build auth_options))
   \<and> calls isGetSession (snd (getCurrentToken (setToken [] (build auth_options)))) = 1
   \<and> fst (getCurrentToken (setToken [] (build auth_options))) = Some ''fake-token''"
proof -
  have h: "enableAuth (config (build auth_options))" by (rule ex_auth)
  from setToken_empty_refetches [OF h] ex_auth_refetch ex_auth_calls [of isGetSession] h
  show ?thesis by simp
qed

section \<open>Construction\<close>

text \<open>
  C5, at the input \<open>new Api({ baseUrl })\<close>: the option \<open>enableAuth\<close> is omitted,
  no session provider and no sign-out handler are given, and the constructor
  returns an object whose \<open>enableAuth\<close> is true and whose interceptors are
  installed.
\<close>

theorem constructor_accepts_omitted_enableAuth:
  "o_enableAuth minimal_options = None
   \<and> o_getSession minimal_options = None \<and> o_signOut minimal_options = None
   \<and> Api_new minimal_options = Inr (build minimal_options)
   \<and> enableAuth (config (build minimal_options))
   \<and> interceptors (build minimal_options)"
  by (simp add: Api_new_def build_def minimal_options_def nullish_def)


section \<open>One pass through the instance: what is kept, what is added\<close>

lemma emit_simps [simp]:
  "config (emit e a) = config a" "interceptors (emit e a) = interceptors a"
  "defaultBaseURL (emit e a) = defaultBaseURL a"
  "currentToken (emit e a) = currentToken a" "trace (emit e a) = trace a @ [e]"
  by (simp_all add: emit_def)

lemma calls_emit [simp]: "calls p (emit e a) = calls p a + (if p e then 1 else 0)"
  by (simp add: calls_def)

lemma with_defaults_simps [simp]:
  "rq_retryCount (with_defaults a rq) = rq_retryCount rq"
  "rq_url (with_defaults a rq) = rq_url rq"
  "rq_baseURL rq = Some u \<Longrightarrow> with_defaults a rq = rq"
  "with_defaults (emit e a) rq = with_defaults a rq"
  by (simp_all add: with_defaults_def nullish_def)






lemma send_cases:
  assumes "send tr a cfg = (res, a1)"
  obtains (hook) m where "requestInterceptor a (with_defaults a cfg) = (Inl (PlainError m), a1)" "res = Inl (PlainError m)"
  | (sent) rq a0 where "requestInterceptor a (with_defaults a cfg) = (Inr rq, a0)" "a1 = emit (TransportCalled rq) a0"
      "res = (case tr (calls isTransport a0) rq of Inr resp \<Rightarrow> Inr resp | Inl f \<Rightarrow> Inl (AxiosErr (raised f rq)))"
  using assms
  by (auto simp: send_def requestInterceptor_def Let_def split: sum.splits option.splits if_splits prod.splits)




lemma send_error_kind:
  assumes "send tr a cfg = (Inl error, a1)"
  shows "(\<exists>m. error = PlainError m) \<or> (\<exists>x. error = AxiosErr x)"
  using assms by (rule send_cases) (auto split: sum.splits)



lemma responseFulfilled_trace:
  "responseFulfilled a resp = (res, a') \<Longrightarrow> trace a' = trace a @ [OnResponseCalled resp] \<and> config a' = config a"
  by (auto simp: responseFulfilled_def split: sum.splits)

lemma rejectNoConfig_trace:
  "rejectNoConfig a error = (res, a') \<Longrightarrow>
     res = Inl error \<and> config a' = config a
     \<and> trace a' = trace a @ [OnResponseCalled (nullish (err_response error) (shell 0 ''No Response''))]"
  by (auto simp: rejectNoConfig_def onResponse_guarded_def)

lemma rejectUnauthorized_trace:
  "rejectUnauthorized a error = (res, a') \<Longrightarrow>
     config a' = config a \<and>
     (case signOut (config a) (calls isSignOut a) of
        Some msg \<Rightarrow> res = Inl (PlainError msg) \<and> trace a' = trace a @ [SignOutCalled]
      | None \<Rightarrow> res = Inl (ApiErr (AuthenticationError ''Unauthorized, user logged out.''))
          \<and> trace a' = trace a @ [SignOutCalled, OnResponseCalled (nullish (err_response error) (shell 401 ''Unauthorized''))])"
  by (auto simp: rejectUnauthorized_def onResponse_guarded_def Let_def split: option.splits)

lemma rejectFinal_trace:
  "rejectFinal a error rq = (res, a') \<Longrightarrow>
     config a' = config a \<and>
     (\<exists>e. e = createApiError error (rq_url rq) (rq_method rq) ''private'' \<and>
      (case onRequestError (config a) e of
        Some msg \<Rightarrow> res = Inl (PlainError msg) \<and> trace a' = trace a @ [OnRequestErrorCalled e]
      | None \<Rightarrow> res = Inl (ApiErr e) \<and> (\<exists>r. trace a' = trace a @ [OnRequestErrorCalled e, OnResponseCalled r])))"
  by (auto simp: rejectFinal_def onResponse_guarded_def Let_def split: option.splits)



lemma terminal_config:
  "responseFulfilled a resp = (res, a') \<Longrightarrow> config a' = config a"
  "rejectNoConfig a error = (res, a') \<Longrightarrow> config a' = config a"
  "rejectUnauthorized a error = (res, a') \<Longrightarrow> config a' = config a"
  "rejectFinal a error rq = (res, a') \<Longrightarrow> config a' = config a"
  by (auto dest!: responseFulfilled_trace rejectNoConfig_trace rejectUnauthorized_trace
      rejectFinal_trace split: option.splits)


section \<open>Retries\<close>






lemma own_found:
  "map_of (services (config a)) name = Some sc \<Longrightarrow> service_property a name = Some (Own sc)"
  by (simp add: service_property_def)


lemma request_not_found:
  assumes "service_property a (nullish (service r) ''private'') = None"
  shows "request tr a r =
     Some (Inl (ApiErr (ApiError (service_not_found (nullish (service r) ''private'')) None None None)), a)"
  using assms by (simp add: request_def getServiceConfig_def)




lemma build_fields:
  "interceptors (build opts) = nullish (o_enableAuth opts) True"
  "enableAuth (config (build opts)) = nullish (o_enableAuth opts) True"
  "maxRetries (config (build opts)) = nullish (o_maxRetries opts) 3"
  "onRequest (config (build opts)) = nullish (o_onRequest opts) (\<lambda>c. Inr (returned c))"
  "onResponse (config (build opts)) = nullish (o_onResponse opts) Inr"
  "onRequestError (config (build opts)) = nullish (o_onRequestError opts) (\<lambda>_. None)"
  "signOut (config (build opts)) = nullish (o_signOut opts) (\<lambda>_. None)"
  "getSession (config (build opts)) = nullish (o_getSession opts) (\<lambda>_. SessionResolved None)"
  "services (config (build opts)) = spread
              [(''public'', \<lparr>url = o_baseUrl opts, svc_enableAuth = Some False\<rparr>),
               (''private'', \<lparr>url = o_baseUrl opts, svc_enableAuth = Some True\<rparr>)]
              (nullish (o_services opts) [])"
  "currentToken (build opts) = None" "trace (build opts) = []"
  by (simp_all add: build_def Let_def)

lemma calls_build [simp]: "calls p (build opts) = 0"
  by (simp add: calls_def build_def)





section \<open>Without interceptors\<close>

lemma noauth_fields:
  "interceptors (build noauth_options) = False" "enableAuth (config (build noauth_options)) = False"
  "maxRetries (config (build noauth_options)) = 3"
  "map_of (services (config (build noauth_options))) ''private''
     = Some \<lparr>url = ''https://api.example.com'', svc_enableAuth = Some True\<rparr>"
  by (simp_all add: build_fields noauth_options_def minimal_options_def nullish_def spread_def)

lemma noauth_new: "Api_new noauth_options = Inr (build noauth_options)"
  by (simp add: Api_new_def noauth_options_def minimal_options_def)








section \<open>Status 401\<close>






section \<open>Auth disabled at construction\<close>

text \<open>
  C4. For an object constructed with \<open>enableAuth: false\<close> (whatever was done to
  its token cache since), \<open>setupInterceptors\<close> did not run, and a request does the
  following. It returns, and it invokes the transport at most once, so a 5xx
  response is not retried. It calls neither the sign-out handler, nor
  \<open>onRequest\<close>, nor \<open>onResponse\<close>, nor \<open>onRequestError\<close>, nor the session
  provider, and it never ends in an \<open>AuthenticationError\<close>. To a registered service
  it invokes the transport exactly once and hands the caller what the transport
  gave: the body of the response, or the transport's own error, not normalised.
\<close>

theorem auth_disabled_installs_no_interceptors:
  assumes "Api_new options = Inr a0" and "o_enableAuth options = Some False"
    and "config a = config a0" and "interceptors a = interceptors a0"
  shows "\<not> interceptors a
    \<and> (\<exists>res a'. request tr a r = Some (res, a')
    \<and> calls isTransport a' \<le> calls isTransport a + 1
    \<and> calls isSignOut a' = calls isSignOut a
    \<and> calls isOnRequest a' = calls isOnRequest a
    \<and> calls isOnResponse a' = calls isOnResponse a
    \<and> calls isOnRequestError a' = calls isOnRequestError a
    \<and> calls isGetSession a' = calls isGetSession a
    \<and> (\<forall>m. res \<noteq> Inl (ApiErr (AuthenticationError m)))
    \<and> (\<forall>sc. map_of (services (config a)) (nullish (service r) ''private'') = Some sc \<longrightarrow>
          (\<exists>rq. rq_url rq = buildUrl (endpoint r) (searchParams r) \<and> rq_baseURL rq = Some (url sc)
             \<and> res = (case tr (calls isTransport a) rq of
                        Inr resp \<Rightarrow> Inr (rs_data resp)
                      | Inl f \<Rightarrow> Inl (AxiosErr (raised f rq)))
             \<and> a' = emit (TransportCalled rq) a)))"
proof -
  from assms(1,2) have a0: "a0 = build options" by (simp add: Api_new_def split: if_splits)
  have ni: "\<not> interceptors a" and ne: "\<not> enableAuth (config a)"
    using assms(2,3,4) a0 by (simp_all add: build_fields nullish_def)
  show ?thesis
  proof (cases "service_property a (nullish (service r) ''private'')")
    case None
    then have "map_of (services (config a)) (nullish (service r) ''private'') = None"
      by (simp add: service_property_def split: option.splits)
    with request_not_found [OF None, of tr] ni show ?thesis
      by (simp add: ApiError_def AuthenticationError_def)
  next
    case (Some pr)
    define cb where "cb = (case pr of Own sc \<Rightarrow> Some (url sc) | Inherited \<Rightarrow> None)"
    let ?rq0 = "\<lparr>rq_url = buildUrl (endpoint r) (searchParams r), rq_method = httpMethod r,
        rq_baseURL = cb, rq_headers = cc_headers (nullish (callConfig r) \<lparr>cc_baseURL = None, cc_headers = []\<rparr>),
        rq_data = (case httpMethod r of POST \<Rightarrow> body r | PUT \<Rightarrow> body r | PATCH \<Rightarrow> body r
                   | DELETE \<Rightarrow> None | GET \<Rightarrow> None),
        rq_retryCount = Some 0\<rparr>"
    let ?rq = "with_defaults a ?rq0"
    have q: "request tr a r =
                 Some (case tr (calls isTransport a) ?rq of
                    Inr resp \<Rightarrow> Inr (rs_data resp)
                  | Inl f \<Rightarrow> Inl (AxiosErr (raised f ?rq)),
                  emit (TransportCalled ?rq) a)"
      using Some ni ne
      by (simp add: request_def getServiceConfig_def executeRequest_def axiosInstance_def Let_def cb_def
          split: sum.splits property.splits)
    have own: "\<forall>sc. map_of (services (config a)) (nullish (service r) ''private'') = Some sc \<longrightarrow>
          (\<exists>rq. rq_url rq = buildUrl (endpoint r) (searchParams r) \<and> rq_baseURL rq = Some (url sc)
             \<and> (case tr (calls isTransport a) ?rq of
                    Inr resp \<Rightarrow> Inr (rs_data resp)
                  | Inl f \<Rightarrow> Inl (AxiosErr (raised f ?rq)))
                 = (case tr (calls isTransport a) rq of
                        Inr resp \<Rightarrow> Inr (rs_data resp)
                      | Inl f \<Rightarrow> Inl (AxiosErr (raised f rq)))
             \<and> emit (TransportCalled ?rq) a = emit (TransportCalled rq) a)"
    proof (intro allI impI)
      fix sc assume "map_of (services (config a)) (nullish (service r) ''private'') = Some sc"
      with Some have "pr = Own sc" by (simp add: service_property_def)
      then have "rq_baseURL ?rq = Some (url sc)" "rq_url ?rq = buildUrl (endpoint r) (searchParams r)"
        by (simp_all add: cb_def with_defaults_def nullish_def)
      then show "\<exists>rq. rq_url rq = buildUrl (endpoint r) (searchParams r) \<and> rq_baseURL rq = Some (url sc)
             \<and> (case tr (calls isTransport a) ?rq of
                    Inr resp \<Rightarrow> Inr (rs_data resp)
                  | Inl f \<Rightarrow> Inl (AxiosErr (raised f ?rq)))
                 = (case tr (calls isTransport a) rq of
                        Inr resp \<Rightarrow> Inr (rs_data resp)
                      | Inl f \<Rightarrow> Inl (AxiosErr (raised f rq)))
             \<and> emit (TransportCalled ?rq) a = emit (TransportCalled rq) a"
        by (intro exI [of _ ?rq]) simp
    qed
    have na: "\<forall>m. (case tr (calls isTransport a) ?rq of
                    Inr resp \<Rightarrow> Inr (rs_data resp)
                  | Inl f \<Rightarrow> Inl (AxiosErr (raised f ?rq))) \<noteq> Inl (ApiErr (AuthenticationError m))"
      by (simp split: sum.splits)
    show ?thesis using ni q own na by simp
  qed
qed

theorem auth_disabled_installs_no_interceptors_witness:
  "Api_new noauth_options = Inr (build noauth_options) \<and> o_enableAuth noauth_options = Some False
   \<and> \<not> interceptors (build noauth_options)
   \<and> (\<exists>rq a'. request (always_status 401) (build noauth_options) (get_data None)
         = Some (Inl (AxiosErr (raised (status_failure 401) rq)), a')
        \<and> calls isTransport a' \<le> 1 \<and> calls isSignOut a' = 0)"
proof -
  have 1: "Api_new noauth_options = Inr (build noauth_options)" by (rule noauth_new)
  have 2: "o_enableAuth noauth_options = Some False" by (simp add: noauth_options_def)
  have 3: "map_of (services (config (build noauth_options))) (nullish (service (get_data None)) ''private'')
      = Some \<lparr>url = ''https://api.example.com'', svc_enableAuth = Some True\<rparr>"
    by (simp add: noauth_fields get_data_def nullish_def)
  from auth_disabled_installs_no_interceptors [OF 1 2 refl refl, of "always_status 401" "get_data None"] 3
  obtain res a' rq where r: "request (always_status 401) (build noauth_options) (get_data None) = Some (res, a')"
    "calls isTransport a' \<le> calls isTransport (build noauth_options) + 1"
    "calls isSignOut a' = calls isSignOut (build noauth_options)"
    "res = (case always_status 401 (calls isTransport (build noauth_options)) rq of
                        Inr resp \<Rightarrow> Inr (rs_data resp)
                      | Inl f \<Rightarrow> Inl (AxiosErr (raised f rq)))"
    by blast
  from r(4) have "res = Inl (AxiosErr (raised (status_failure 401) rq))" by (simp add: always_status_def)
  with r(1) have "request (always_status 401) (build noauth_options) (get_data None)
         = Some (Inl (AxiosErr (raised (status_failure 401) rq)), a')" by simp
  moreover have "\<not> interceptors (build noauth_options)" by (simp add: noauth_fields)
  moreover have "calls isTransport a' \<le> 1" "calls isSignOut a' = 0" using r(2,3) by simp_all
  ultimately show ?thesis using 1 2 by blast
qed

section \<open>Calls of \<open>onRequestError\<close>\<close>










lemma reported_build [simp]: "reported (build opts) = []"
  by (simp add: reported_def build_fields)








section \<open>Service names the registry does not hold\<close>





section \<open>A service without auth that shares the URL of one with auth\<close>

lemma shared_new: "Api_new shared_url_options = Inr (build shared_url_options)"
  by (simp add: Api_new_def shared_url_options_def auth_options_def minimal_options_def)

lemma shared_run:
  "map_of (services (config (build shared_url_options))) ''service_1''
       = Some \<lparr>url = ''https://api.example.com'', svc_enableAuth = Some False\<rparr>
   \<and> currentToken (build shared_url_options) = None
   \<and> map_option fst (request always_ok (build shared_url_options) (get_data (Some ''service_1''))) = Some (Inr None)
   \<and> map_option (\<lambda>x. filter isTransport (trace (snd x)))
        (request always_ok (build shared_url_options) (get_data (Some ''service_1'')))
       = Some [TransportCalled \<lparr>rq_url = ''/data'', rq_method = GET, rq_baseURL = Some ''https://api.example.com'',
            rq_headers = [(''Authorization'', ''Bearer fake-token'')], rq_data = None, rq_retryCount = Some 0\<rparr>]"
  by code_simp

text \<open>
  C3, at a registry where \<open>service_1\<close> (\<open>enableAuth: false\<close>) has the URL of
  \<open>private\<close> (\<open>enableAuth: true\<close>), global auth enabled and no token cached: a GET
  to \<open>service_1\<close> succeeds, and the one request the transport receives carries
  \<open>Authorization: Bearer fake-token\<close>. \<open>getServiceConfig\<close> attached nothing; the
  request interceptor looked the service up by URL, found \<open>private\<close> first, fetched
  the token and attached it.
\<close>

theorem token_attached_to_service_without_auth:
  "Api_new shared_url_options = Inr (build shared_url_options)
   \<and> map_of (services (config (build shared_url_options))) ''service_1''
       = Some \<lparr>url = ''https://api.example.com'', svc_enableAuth = Some False\<rparr>
   \<and> currentToken (build shared_url_options) = None
   \<and> map_option fst (request always_ok (build shared_url_options) (get_data (Some ''service_1''))) = Some (Inr None)
   \<and> map_option (\<lambda>x. filter isTransport (trace (snd x)))
        (request always_ok (build shared_url_options) (get_data (Some ''service_1'')))
       = Some [TransportCalled \<lparr>rq_url = ''/data'', rq_method = GET, rq_baseURL = Some ''https://api.example.com'',
            rq_headers = [(''Authorization'', ''Bearer fake-token'')], rq_data = None, rq_retryCount = Some 0\<rparr>]"
  using shared_new shared_run by blast


end
